theory Spec2Isabelle
  imports Main
begin

section \<open>saml\_reader: the constructor of \<open>TextReader\<close> (text\_reader.py)\<close>

text \<open>
  The class \<open>TextReader\<close> reads raw text from the clipboard, a file or standard input,
  hands it to the SAML parsers and to the certificate class, and records what it found in
  the attributes of the object. The parsers (\<open>saml_reader.saml.parser\<close>), the HAR reader
  (\<open>saml_reader.har\<close>) and the certificate class (\<open>saml_reader.cert\<close>) are collaborators:
  they are parameters of the model, collected in the record \<open>env\<close>, and each of them either
  returns a value or raises.
\<close>

subsection \<open>Exceptions\<close>

text \<open>
  Every exception the constructor raises, catches or lets through. The three exceptions of
  the parser module are taken as unrelated classes; \<open>SamlResponseEncryptedError\<close> and
  \<open>IsASamlRequest\<close> carry the attribute \<open>parser\<close> that the constructor reads.
  \<open>OtherException\<close> stands for any exception a collaborator raises that the constructor
  has no handler for.
\<close>

datatype exn =
    ValueError string
  | FileNotFoundError string
  | TypeError string
  | AttributeError string
  | SamlParsingError
  | SamlResponseEncryptedError string
  | IsASamlRequest string
  | OtherException string

subsection \<open>Collaborators\<close>

text \<open>
  A parsed SAML object, as far as the constructor looks at it: the results of its methods
  \<open>used_relaxed_parser()\<close>, \<open>found_any_values()\<close> and \<open>get_certificate()\<close>
  (\<open>None\<close> is Python's \<open>None\<close>).
\<close>

record saml_parser =
  used_relaxed_parser :: bool
  found_any_values :: bool
  get_certificate :: "string option"

datatype certificate = CertificateObject string

datatype parser_class = StandardSamlParser | RegexSamlParser

text \<open>
  The world around one call of the constructor: the clipboard, the lines of standard
  input, the readable files, and the behaviour of the collaborators. A string is the
  list of its bytes (UTF-8); \<open>unicode_lower\<close> is \<open>str.lower()\<close> on the strings that have
  a character outside ASCII, which the model does not compute.
\<close>

record env =
  unicode_lower :: "string \<Rightarrow> string"
  paste :: string
  stdin_readlines :: "string list"
  files :: "string \<Rightarrow> string option"
  har_parse :: "string \<Rightarrow> exn + string"
  from_base64 :: "parser_class \<Rightarrow> string \<Rightarrow> exn + saml_parser"
  from_xml :: "parser_class \<Rightarrow> string \<Rightarrow> exn + saml_parser"
  Certificate :: "string \<Rightarrow> exn + certificate"

text \<open>
  The calls the constructor makes on its collaborators, in the order it makes them:
  \<open>HarParser(data).parse()\<close>, \<open>from_base64\<close> or \<open>from_xml\<close> of a parser class, and the
  methods of the parsed object and the certificate class.
\<close>

datatype call =
    HarParse
  | Parse parser_class
  | FoundAnyValues
  | GetCertificate
  | BuildCertificate

subsection \<open>The object\<close>

text \<open>
  The attributes \<open>_errors\<close>, \<open>_valid_saml\<close>, \<open>_parser_used\<close>, \<open>_saml\<close>,
  \<open>_valid_cert\<close> and \<open>_cert\<close> (Isabelle names cannot start with an underscore).
  An attribute that the constructor assigns on some paths only is an option: \<open>None\<close>
  means that the attribute was never assigned, so that reading it raises
  \<open>AttributeError\<close>. For \<open>_saml\<close> and \<open>_cert\<close> the inner option is Python's \<open>None\<close>.
\<close>

record text_reader =
  errors :: "string list"
  valid_saml :: bool
  parser_used :: string
  saml :: "saml_parser option option"
  valid_cert :: "bool option"
  cert :: "certificate option option"

text \<open>The object together with the local variables of \<open>__init__\<close> and the calls made so far.\<close>

record frame =
  self :: text_reader
  is_encrypted :: bool
  is_a_response :: bool
  calls :: "call list"

subsection \<open>Strings\<close>

text \<open>
  \<open>str.lower()\<close>. On an ASCII string it maps \<open>A\<close> to \<open>Z\<close> to \<open>a\<close> to \<open>z\<close> and leaves
  every other character; on any other string it is \<open>unicode_lower\<close> of the environment.
\<close>

definition char_lower :: "char \<Rightarrow> char" where
  "char_lower c =
     (let n = (of_char c :: nat) in if 65 \<le> n \<and> n \<le> 90 then char_of (n + 32) else c)"

definition is_ascii :: "string \<Rightarrow> bool" where
  "is_ascii s = list_all (\<lambda>c. (of_char c :: nat) < 128) s"

definition ascii_lower :: "string \<Rightarrow> string" where
  "ascii_lower s = map char_lower s"

definition lower :: "env \<Rightarrow> string \<Rightarrow> string" where
  "lower env s = (if is_ascii s then ascii_lower s else unicode_lower env s)"

definition VALID_INPUT_TYPES :: "string set" where
  "VALID_INPUT_TYPES = {''base64'', ''xml'', ''har''}"

definition fallback_warning :: "string \<Rightarrow> string" where
  "fallback_warning p =
     ''WARNING: XML parsing failed. Using fallback '' @ [CHR 0x27] @ p @ [CHR 0x27]
       @ '' parser. Some values may not parse correctly.'' @ [CHR 0x0A]"

definition encrypted_message :: string where
  "encrypted_message =
     ''SAML response is encrypted. Cannot parse.'' @ [CHR 0x0A]
       @ ''Advise customer to update their identity provider ''
       @ ''to send an unencrypted SAML response.''"

definition request_message :: string where
  "request_message =
     ''The input data appears to be a SAML request instead of a SAML response.'' @ [CHR 0x0A]
       @ ''Please ask the customer for the SAML response instead of the request.''"

definition no_values_message :: string where
  "no_values_message =
     ''Could not parse any relevant information from the input data.'' @ [CHR 0x0A]
       @ ''Please make sure that your input contains SAML data.''"

definition no_certificate_message :: string where
  "no_certificate_message =
     ''Could not locate certificate. Identity provider info will not be available.''"

subsection \<open>Reading the input\<close>

text \<open>
  \<open>_read_file\<close>: a missing file raises \<open>FileNotFoundError\<close> with the message of the
  source; \<open>open(None)\<close> (no \<open>filename\<close> given) raises \<open>TypeError\<close>.
\<close>

definition read_file :: "env \<Rightarrow> string option \<Rightarrow> exn + string" where
  "read_file env filename =
     (case filename of
        None \<Rightarrow> Inl (TypeError ''expected str, bytes or os.PathLike object, not NoneType'')
      | Some name \<Rightarrow>
          (case files env name of
             None \<Rightarrow> Inl (FileNotFoundError (''Cannot find file specified: '' @ name))
           | Some data \<Rightarrow> Inr data))"

definition read_clipboard :: "env \<Rightarrow> exn + string" where
  "read_clipboard env = Inr (paste env)"

definition read_stdin :: "env \<Rightarrow> exn + string" where
  "read_stdin env = Inr (concat (stdin_readlines env))"

text \<open>Lines 51 to 58 of \<open>__init__\<close>: the dispatch on \<open>source\<close>.\<close>

definition read_source :: "env \<Rightarrow> string \<Rightarrow> string option \<Rightarrow> exn + string" where
  "read_source env source filename =
     (if source = ''clip'' then read_clipboard env
      else if source = ''stdin'' then read_stdin env
      else if source = ''file'' then read_file env filename
      else Inl (ValueError (''Invalid source: '' @ source)))"

subsection \<open>Parsing\<close>

text \<open>
  \<open>_parse_raw_data\<close>, with the calls it makes: an exception of the HAR reader or of the
  parser goes to the caller, and when the HAR reader raises, the parser is not called
  (the argument \<open>HarParser(data).parse()\<close> of line 199 is evaluated first).
\<close>

definition parse_raw_data_traced ::
  "env \<Rightarrow> string \<Rightarrow> string \<Rightarrow> parser_class \<Rightarrow> (exn + saml_parser) \<times> call list" where
  "parse_raw_data_traced env input_type data parser =
     (if input_type = ''base64'' then (from_base64 env parser data, [Parse parser])
      else if input_type = ''xml'' then (from_xml env parser data, [Parse parser])
      else if input_type = ''har'' then
        (case har_parse env data of
           Inl e \<Rightarrow> (Inl e, [HarParse])
         | Inr assertion \<Rightarrow> (from_base64 env parser assertion, [HarParse, Parse parser]))
      else (Inl (ValueError (''Invalid data type specified: '' @ input_type)), []))"

text \<open>What \<open>_parse_raw_data\<close> returns or raises, and the calls it made.\<close>

definition parse_raw_data ::
  "env \<Rightarrow> string \<Rightarrow> string \<Rightarrow> parser_class \<Rightarrow> exn + saml_parser" where
  "parse_raw_data env input_type data parser =
     fst (parse_raw_data_traced env input_type data parser)"

definition parse_raw_data_calls ::
  "env \<Rightarrow> string \<Rightarrow> string \<Rightarrow> parser_class \<Rightarrow> call list" where
  "parse_raw_data_calls env input_type data parser =
     snd (parse_raw_data_traced env input_type data parser)"

text \<open>
  Lines 69 to 80: the \<open>except\<close> clauses of the first \<open>try\<close>. Any other exception leaves the
  constructor.
\<close>

fun standard_except :: "frame \<Rightarrow> exn \<Rightarrow> (exn \<times> call list) + frame" where
  "standard_except f SamlParsingError =
     Inr (f\<lparr>self := (self f)\<lparr>parser_used := ''regex''\<rparr>\<rparr>)"
| "standard_except f (SamlResponseEncryptedError p) =
     Inr (f\<lparr>is_encrypted := True,
            self := (self f)\<lparr>saml := Some None, valid_saml := False, parser_used := p\<rparr>\<rparr>)"
| "standard_except f (IsASamlRequest p) =
     Inr (f\<lparr>is_a_response := True,
            self := (self f)\<lparr>saml := Some None, valid_saml := False, parser_used := p\<rparr>\<rparr>)"
| "standard_except f e = Inl (e, calls f)"

text \<open>Lines 45 and 60 to 80: the object is set up and the standard parser is tried.\<close>

definition standard_attempt :: "env \<Rightarrow> string \<Rightarrow> string \<Rightarrow> (exn \<times> call list) + frame" where
  "standard_attempt env input_type raw_data =
     (let f = \<lparr>self = \<lparr>errors = [], valid_saml = True, parser_used = ''strict'',
                        saml = None, valid_cert = None, cert = None\<rparr>,
                is_encrypted = False, is_a_response = False,
                calls = parse_raw_data_calls env input_type raw_data StandardSamlParser\<rparr>
      in case parse_raw_data env input_type raw_data StandardSamlParser of
           Inr s \<Rightarrow>
             Inr (f\<lparr>self := (self f)\<lparr>saml := Some (Some s),
                       parser_used := (if used_relaxed_parser s then ''relaxed''
                                       else parser_used (self f))\<rparr>\<rparr>)
         | Inl e \<Rightarrow> standard_except f e)"

text \<open>Lines 86 to 93: the \<open>except\<close> clauses of the second \<open>try\<close>.\<close>

fun regex_except :: "frame \<Rightarrow> exn \<Rightarrow> (exn \<times> call list) + frame" where
  "regex_except f (SamlResponseEncryptedError p) =
     Inr (f\<lparr>is_encrypted := True, self := (self f)\<lparr>saml := Some None, valid_saml := False\<rparr>\<rparr>)"
| "regex_except f (IsASamlRequest p) =
     Inr (f\<lparr>is_a_response := True, self := (self f)\<lparr>saml := Some None, valid_saml := False\<rparr>\<rparr>)"
| "regex_except f e = Inl (e, calls f)"

text \<open>Lines 82 to 93: the regex parser is tried when \<open>_parser_used\<close> is \<open>'regex'\<close>.\<close>

definition regex_attempt :: "env \<Rightarrow> string \<Rightarrow> string \<Rightarrow> frame \<Rightarrow> (exn \<times> call list) + frame" where
  "regex_attempt env input_type raw_data f0 =
     (if parser_used (self f0) = ''regex'' then
        (let f = f0\<lparr>calls := calls f0
                             @ parse_raw_data_calls env input_type raw_data RegexSamlParser\<rparr>
         in case parse_raw_data env input_type raw_data RegexSamlParser of
              Inr s \<Rightarrow> Inr (f\<lparr>self := (self f)\<lparr>saml := Some (Some s)\<rparr>\<rparr>)
            | Inl e \<Rightarrow> regex_except f e)
      else Inr f0)"

subsection \<open>Messages and validity\<close>

text \<open>Lines 95 to 97.\<close>

definition warn_fallback :: "frame \<Rightarrow> frame" where
  "warn_fallback f =
     (if parser_used (self f) \<noteq> ''strict''
      then f\<lparr>self := (self f)\<lparr>errors := errors (self f) @ [fallback_warning (parser_used (self f))]\<rparr>\<rparr>
      else f)"

text \<open>
  \<open>if raw_cert:\<close> is Python's truth test: \<open>None\<close> and the empty string are false.
\<close>

definition truthy :: "string option \<Rightarrow> bool" where
  "truthy v = (case v of None \<Rightarrow> False | Some s \<Rightarrow> s \<noteq> [])"

text \<open>
  Lines 121 to 132. The call \<open>Certificate(raw_cert)\<close> returns an object or raises; the
  last line is \<open>self._valid_cert = self._cert is not None\<close>.
\<close>

definition certificate_step :: "env \<Rightarrow> frame \<Rightarrow> saml_parser \<Rightarrow> (exn \<times> call list) + frame" where
  "certificate_step env f0 s =
     (let f = f0\<lparr>self := (self f0)\<lparr>valid_cert := Some False, cert := Some None\<rparr>\<rparr>
      in if valid_saml (self f) then
           (let f1 = f\<lparr>calls := calls f @ [GetCertificate]\<rparr>;
                raw_cert = get_certificate s;
                not_located = f1\<lparr>self := (self f1)\<lparr>errors := errors (self f1)
                                                         @ [no_certificate_message]\<rparr>\<rparr>
            in case (if truthy raw_cert then
                       (case raw_cert of
                          None \<Rightarrow> Inr not_located
                        | Some blob \<Rightarrow>
                            (let f2 = f1\<lparr>calls := calls f1 @ [BuildCertificate]\<rparr>
                             in case Certificate env blob of
                                  Inl e \<Rightarrow> Inl (e, calls f2)
                                | Inr c \<Rightarrow> Inr (f2\<lparr>self := (self f2)\<lparr>cert := Some (Some c)\<rparr>\<rparr>)))
                     else Inr not_located) of
                 Inl x \<Rightarrow> Inl x
               | Inr f3 \<Rightarrow>
                   Inr (f3\<lparr>self := (self f3)\<lparr>valid_cert := Some (cert (self f3) \<noteq> Some None)\<rparr>\<rparr>))
         else Inr f)"

text \<open>
  Lines 99 to 132: the two early returns, the check of \<open>found_any_values()\<close> and the
  certificate. \<open>self._saml.found_any_values()\<close> on \<open>None\<close> would raise
  \<open>AttributeError\<close>.
\<close>

definition resolve :: "env \<Rightarrow> frame \<Rightarrow> (exn \<times> call list) + frame" where
  "resolve env f =
     (if is_encrypted f then
        Inr (f\<lparr>self := (self f)\<lparr>errors := errors (self f) @ [encrypted_message]\<rparr>\<rparr>)
      else if is_a_response f then
        Inr (f\<lparr>self := (self f)\<lparr>errors := errors (self f) @ [request_message]\<rparr>\<rparr>)
      else
        (case saml (self f) of
           Some (Some s) \<Rightarrow>
             (let f1 = f\<lparr>calls := calls f @ [FoundAnyValues]\<rparr>;
                  f2 = (if \<not> found_any_values s
                        then f1\<lparr>self := (self f1)\<lparr>errors := errors (self f1) @ [no_values_message],
                                                  valid_saml := False\<rparr>\<rparr>
                        else f1)
              in certificate_step env f2 s)
         | _ \<Rightarrow> Inl (AttributeError ''found_any_values'', calls f)))"

subsection \<open>The constructor\<close>

text \<open>
  \<open>TextReader.__init__\<close>. The result is the exception that leaves the constructor, or the
  object; both come with the calls made on the collaborators.
\<close>

definition TextReader_init ::
  "env \<Rightarrow> string \<Rightarrow> string \<Rightarrow> string option \<Rightarrow> (exn \<times> call list) + (text_reader \<times> call list)" where
  "TextReader_init env source input_type0 filename =
     (let input_type = lower env input_type0
      in if input_type \<notin> VALID_INPUT_TYPES then
           Inl (ValueError (''Invalid input type: '' @ input_type), [])
         else
           (case read_source env source filename of
              Inl e \<Rightarrow> Inl (e, [])
            | Inr raw_data \<Rightarrow>
                (case standard_attempt env input_type raw_data of
                   Inl x \<Rightarrow> Inl x
                 | Inr f1 \<Rightarrow>
                     (case regex_attempt env input_type raw_data f1 of
                        Inl x \<Rightarrow> Inl x
                      | Inr f2 \<Rightarrow>
                          (case resolve env (warn_fallback f2) of
                             Inl x \<Rightarrow> Inl x
                           | Inr f3 \<Rightarrow> Inr (self f3, calls f3))))))"

text \<open>The calls made during a run of the constructor, whether it returned or raised.\<close>

definition calls_of :: "(exn \<times> call list) + (text_reader \<times> call list) \<Rightarrow> call list" where
  "calls_of result = (case result of Inl (e, cs) \<Rightarrow> cs | Inr (r, cs) \<Rightarrow> cs)"

subsection \<open>The queries\<close>


definition get_certificate_object :: "text_reader \<Rightarrow> exn + certificate option" where
  "get_certificate_object r = (case cert r of None \<Rightarrow> Inl (AttributeError ''_cert'') | Some v \<Rightarrow> Inr v)"

definition saml_is_valid :: "text_reader \<Rightarrow> bool" where
  "saml_is_valid r = valid_saml r"

definition cert_is_valid :: "text_reader \<Rightarrow> exn + bool" where
  "cert_is_valid r =
     (case valid_cert r of None \<Rightarrow> Inl (AttributeError ''_valid_cert'') | Some b \<Rightarrow> Inr b)"

definition get_errors :: "text_reader \<Rightarrow> string list" where
  "get_errors r = errors r"

subsection \<open>Sample runs\<close>

text \<open>
  Concrete collaborators for evaluating the constructor: the standard parser and the regex
  parser each answer with a fixed result, whatever the data, the HAR reader hands its
  input on, and the only file is \<open>response.xml\<close>. In \<open>broken_har_env\<close> the HAR reader
  raises.
\<close>

definition sample_env ::
  "(exn + saml_parser) \<Rightarrow> (exn + saml_parser) \<Rightarrow> (string \<Rightarrow> exn + certificate) \<Rightarrow> env" where
  "sample_env standard regex build =
     \<lparr>unicode_lower = (\<lambda>s. s), paste = ''<samlp:Response/>'', stdin_readlines = [],
      files = (\<lambda>name. if name = ''response.xml'' then Some ''<samlp:Response/>'' else None),
      har_parse = (\<lambda>data. Inr data),
      from_base64 = (\<lambda>parser data. case parser of StandardSamlParser \<Rightarrow> standard
                                                  | RegexSamlParser \<Rightarrow> regex),
      from_xml = (\<lambda>parser data. case parser of StandardSamlParser \<Rightarrow> standard
                                               | RegexSamlParser \<Rightarrow> regex),
      Certificate = build\<rparr>"

definition broken_har_env ::
  "(exn + saml_parser) \<Rightarrow> (exn + saml_parser) \<Rightarrow> (string \<Rightarrow> exn + certificate) \<Rightarrow> env" where
  "broken_har_env standard regex build =
     (sample_env standard regex build)
       \<lparr>har_parse := (\<lambda>data. Inl (OtherException ''Unable to read HAR data''))\<rparr>"

definition good_certificate :: "string \<Rightarrow> exn + certificate" where
  "good_certificate blob = Inr (CertificateObject blob)"

definition bad_certificate :: "string \<Rightarrow> exn + certificate" where
  "bad_certificate blob = Inl (OtherException ''Unable to load certificate'')"

definition saml_with_certificate :: saml_parser where
  "saml_with_certificate =
     \<lparr>used_relaxed_parser = False, found_any_values = True, get_certificate = Some ''MIIC''\<rparr>"

definition saml_without_values :: saml_parser where
  "saml_without_values =
     \<lparr>used_relaxed_parser = False, found_any_values = False, get_certificate = None\<rparr>"

definition saml_without_certificate :: saml_parser where
  "saml_without_certificate =
     \<lparr>used_relaxed_parser = False, found_any_values = True, get_certificate = None\<rparr>"

section \<open>Properties\<close>

subsection \<open>The phases of the constructor\<close>

lemma is_ascii_literals:
  "is_ascii ''base64''" "is_ascii ''xml''" "is_ascii ''har''" "is_ascii ''XML''"
  "is_ascii ''Base64''" "is_ascii ''YAML''"
  by code_simp+

lemma ascii_lower_literals:
  "ascii_lower ''base64'' = ''base64''" "ascii_lower ''xml'' = ''xml''"
  "ascii_lower ''har'' = ''har''" "ascii_lower ''XML'' = ''xml''"
  "ascii_lower ''Base64'' = ''base64''" "ascii_lower ''YAML'' = ''yaml''"
  by code_simp+

lemma lower_base64: "lower env ''base64'' = ''base64''"
  by (simp add: lower_def is_ascii_literals ascii_lower_literals)

lemma lower_xml: "lower env ''xml'' = ''xml''"
  by (simp add: lower_def is_ascii_literals ascii_lower_literals)

lemma lower_har: "lower env ''har'' = ''har''"
  by (simp add: lower_def is_ascii_literals ascii_lower_literals)

lemma lower_XML: "lower env ''XML'' = ''xml''"
  by (simp add: lower_def is_ascii_literals ascii_lower_literals)

lemma lower_Base64: "lower env ''Base64'' = ''base64''"
  by (simp add: lower_def is_ascii_literals ascii_lower_literals)

lemma lower_yaml: "lower env ''YAML'' = ''yaml''"
  by (simp add: lower_def is_ascii_literals ascii_lower_literals)

lemma lower_valid_idem:
  "lower env t \<in> VALID_INPUT_TYPES \<Longrightarrow> lower env (lower env t) = lower env t"
  by (auto simp: VALID_INPUT_TYPES_def lower_base64 lower_xml lower_har)

lemmas message_defs = fallback_warning_def encrypted_message_def request_message_def
  no_values_message_def no_certificate_message_def

lemma warning_not_other:
  "fallback_warning p \<noteq> encrypted_message" "fallback_warning p \<noteq> request_message"
  "fallback_warning p \<noteq> no_values_message" "fallback_warning p \<noteq> no_certificate_message"
  by (simp_all add: message_defs)

lemma standard_attempt_cases:
  assumes "standard_attempt env t raw = Inr f"
  shows "calls f = parse_raw_data_calls env t raw StandardSamlParser \<and> errors (self f) = [] \<and> valid_cert (self f) = None
       \<and> cert (self f) = None \<and>
    ((\<exists>s. parse_raw_data env t raw StandardSamlParser = Inr s \<and> \<not> is_encrypted f \<and> \<not> is_a_response f
          \<and> valid_saml (self f) \<and> saml (self f) = Some (Some s)
          \<and> parser_used (self f) = (if used_relaxed_parser s then ''relaxed'' else ''strict''))
   \<or> (parse_raw_data env t raw StandardSamlParser = Inl SamlParsingError \<and> \<not> is_encrypted f
          \<and> \<not> is_a_response f \<and> valid_saml (self f) \<and> saml (self f) = None
          \<and> parser_used (self f) = ''regex'')
   \<or> (parse_raw_data env t raw StandardSamlParser = Inl (SamlResponseEncryptedError (parser_used (self f)))
          \<and> is_encrypted f \<and> \<not> is_a_response f \<and> \<not> valid_saml (self f) \<and> saml (self f) = Some None)
   \<or> (parse_raw_data env t raw StandardSamlParser = Inl (IsASamlRequest (parser_used (self f)))
          \<and> \<not> is_encrypted f \<and> is_a_response f \<and> \<not> valid_saml (self f) \<and> saml (self f) = Some None))"
proof (cases "parse_raw_data env t raw StandardSamlParser")
  case (Inr s)
  with assms show ?thesis by (auto simp: standard_attempt_def)
next
  case (Inl e)
  with assms show ?thesis by (cases e) (auto simp: standard_attempt_def)
qed

lemma regex_attempt_skip:
  "parser_used (self f0) \<noteq> ''regex'' \<Longrightarrow> regex_attempt env t raw f0 = Inr f0"
  by (simp add: regex_attempt_def)

lemma regex_attempt_cases:
  assumes "regex_attempt env t raw f0 = Inr f" and "parser_used (self f0) = ''regex''"
  shows "calls f = calls f0 @ parse_raw_data_calls env t raw RegexSamlParser
       \<and> errors (self f) = errors (self f0)
       \<and> valid_cert (self f) = valid_cert (self f0) \<and> cert (self f) = cert (self f0)
       \<and> parser_used (self f) = ''regex'' \<and>
    ((\<exists>s. parse_raw_data env t raw RegexSamlParser = Inr s \<and> saml (self f) = Some (Some s)
          \<and> is_encrypted f = is_encrypted f0 \<and> is_a_response f = is_a_response f0
          \<and> valid_saml (self f) = valid_saml (self f0))
   \<or> ((\<exists>p. parse_raw_data env t raw RegexSamlParser = Inl (SamlResponseEncryptedError p))
          \<and> is_encrypted f \<and> is_a_response f = is_a_response f0
          \<and> \<not> valid_saml (self f) \<and> saml (self f) = Some None)
   \<or> ((\<exists>p. parse_raw_data env t raw RegexSamlParser = Inl (IsASamlRequest p))
          \<and> is_encrypted f = is_encrypted f0 \<and> is_a_response f
          \<and> \<not> valid_saml (self f) \<and> saml (self f) = Some None))"
proof (cases "parse_raw_data env t raw RegexSamlParser")
  case (Inr s)
  with assms show ?thesis by (auto simp: regex_attempt_def)
next
  case (Inl e)
  with assms show ?thesis by (cases e) (auto simp: regex_attempt_def)
qed

lemma warn_fallback_fields:
  "calls (warn_fallback f) = calls f" "is_encrypted (warn_fallback f) = is_encrypted f"
  "is_a_response (warn_fallback f) = is_a_response f"
  "valid_saml (self (warn_fallback f)) = valid_saml (self f)"
  "parser_used (self (warn_fallback f)) = parser_used (self f)"
  "saml (self (warn_fallback f)) = saml (self f)"
  "valid_cert (self (warn_fallback f)) = valid_cert (self f)"
  "cert (self (warn_fallback f)) = cert (self f)"
  "errors (self (warn_fallback f)) =
     errors (self f) @ (if parser_used (self f) \<noteq> ''strict''
                        then [fallback_warning (parser_used (self f))] else [])"
  by (simp_all add: warn_fallback_def)

lemma certificate_step_cases:
  assumes "certificate_step env f s = Inr f'"
  shows "parser_used (self f') = parser_used (self f) \<and> saml (self f') = saml (self f)
       \<and> valid_saml (self f') = valid_saml (self f) \<and>
    ((\<not> valid_saml (self f) \<and> calls f' = calls f \<and> errors (self f') = errors (self f)
        \<and> valid_cert (self f') = Some False \<and> cert (self f') = Some None)
   \<or> (valid_saml (self f) \<and> \<not> truthy (get_certificate s) \<and> calls f' = calls f @ [GetCertificate]
        \<and> errors (self f') = errors (self f) @ [no_certificate_message]
        \<and> valid_cert (self f') = Some False \<and> cert (self f') = Some None)
   \<or> (\<exists>blob c. valid_saml (self f) \<and> get_certificate s = Some blob \<and> blob \<noteq> []
        \<and> Certificate env blob = Inr c
        \<and> calls f' = calls f @ [GetCertificate, BuildCertificate]
        \<and> errors (self f') = errors (self f)
        \<and> valid_cert (self f') = Some True \<and> cert (self f') = Some (Some c)))"
  using assms
  by (auto simp: certificate_step_def truthy_def Let_def split: if_splits option.splits sum.splits)

lemma resolve_cases:
  assumes "resolve env f = Inr f'"
  shows "parser_used (self f') = parser_used (self f) \<and> saml (self f') = saml (self f) \<and>
    ((is_encrypted f \<and> calls f' = calls f \<and> errors (self f') = errors (self f) @ [encrypted_message]
        \<and> valid_saml (self f') = valid_saml (self f) \<and> valid_cert (self f') = valid_cert (self f)
        \<and> cert (self f') = cert (self f))
   \<or> (\<not> is_encrypted f \<and> is_a_response f \<and> calls f' = calls f
        \<and> errors (self f') = errors (self f) @ [request_message]
        \<and> valid_saml (self f') = valid_saml (self f) \<and> valid_cert (self f') = valid_cert (self f)
        \<and> cert (self f') = cert (self f))
   \<or> (\<exists>s g. \<not> is_encrypted f \<and> \<not> is_a_response f \<and> saml (self f) = Some (Some s)
        \<and> certificate_step env g s = Inr f'
        \<and> calls g = calls f @ [FoundAnyValues]
        \<and> errors (self g) = errors (self f) @ (if found_any_values s then [] else [no_values_message])
        \<and> valid_saml (self g) = (valid_saml (self f) \<and> found_any_values s)
        \<and> parser_used (self g) = parser_used (self f) \<and> saml (self g) = saml (self f)))"
proof -
  consider (enc) "is_encrypted f" | (req) "\<not> is_encrypted f" "is_a_response f"
    | (go) "\<not> is_encrypted f" "\<not> is_a_response f" by blast
  then show ?thesis
  proof cases
    case enc
    with assms show ?thesis by (auto simp: resolve_def)
  next
    case req
    with assms show ?thesis by (auto simp: resolve_def)
  next
    case go
    from go assms obtain s where s: "saml (self f) = Some (Some s)"
      by (auto simp: resolve_def split: option.splits)
    let ?g = "if \<not> found_any_values s
              then f\<lparr>calls := calls f @ [FoundAnyValues],
                     self := (self f)\<lparr>errors := errors (self f) @ [no_values_message],
                                       valid_saml := False\<rparr>\<rparr>
              else f\<lparr>calls := calls f @ [FoundAnyValues]\<rparr>"
    from go s assms have step: "certificate_step env ?g s = Inr f'"
      by (simp add: resolve_def Let_def split: if_splits)
    from certificate_step_cases[OF step] have keep:
      "parser_used (self f') = parser_used (self f)" "saml (self f') = saml (self f)"
      by (simp_all split: if_splits)
    have g: "calls ?g = calls f @ [FoundAnyValues]"
      "errors (self ?g) = errors (self f) @ (if found_any_values s then [] else [no_values_message])"
      "valid_saml (self ?g) = (valid_saml (self f) \<and> found_any_values s)"
      "parser_used (self ?g) = parser_used (self f)" "saml (self ?g) = saml (self f)"
      by simp_all
    show ?thesis using go s step keep g by blast
  qed
qed

lemma init_report:
  assumes "TextReader_init env src t fn = Inr (r, cs)"
  shows "\<exists>raw f1 f2 f3. lower env t \<in> VALID_INPUT_TYPES \<and> read_source env src fn = Inr raw
      \<and> standard_attempt env (lower env t) raw = Inr f1
      \<and> regex_attempt env (lower env t) raw f1 = Inr f2
      \<and> resolve env (warn_fallback f2) = Inr f3 \<and> r = self f3 \<and> cs = calls f3"
  using assms
  by (simp add: TextReader_init_def Let_def split: if_splits sum.splits)


text \<open>What the two parse attempts leave behind.\<close>

lemma attempts_cert_unset:
  assumes "standard_attempt env t raw = Inr f1" "regex_attempt env t raw f1 = Inr f2"
  shows "valid_cert (self f2) = None \<and> cert (self f2) = None \<and> errors (self f2) = []"
proof (cases "parser_used (self f1) = ''regex''")
  case True
  from regex_attempt_cases[OF assms(2) True] standard_attempt_cases[OF assms(1)]
  show ?thesis by simp
next
  case False
  with assms(2) have "f2 = f1" by (simp add: regex_attempt_def)
  with standard_attempt_cases[OF assms(1)] show ?thesis by simp
qed


lemma resolve_errors:
  assumes "resolve env f = Inr f'"
  shows "\<exists>rest. errors (self f') = errors (self f) @ rest
      \<and> set rest \<subseteq> {encrypted_message, request_message, no_values_message, no_certificate_message}"
proof -
  from resolve_cases[OF assms] consider
      (enc) "errors (self f') = errors (self f) @ [encrypted_message]"
    | (req) "errors (self f') = errors (self f) @ [request_message]"
    | (go) s g where "certificate_step env g s = Inr f'"
        "errors (self g) = errors (self f) @ (if found_any_values s then [] else [no_values_message])"
    by blast
  then show ?thesis
  proof cases
    case enc then show ?thesis by simp
  next
    case req then show ?thesis by simp
  next
    case go
    from certificate_step_cases[OF go(1)] have
      "errors (self f') = errors (self g) \<or> errors (self f') = errors (self g) @ [no_certificate_message]"
      by blast
    with go(2) show ?thesis by (auto split: if_splits)
  qed
qed

lemma report_errors:
  assumes "TextReader_init env src t fn = Inr (r, cs)"
  shows "\<exists>rest. errors r = (if parser_used r \<noteq> ''strict'' then [fallback_warning (parser_used r)] else []) @ rest
      \<and> set rest \<subseteq> {encrypted_message, request_message, no_values_message, no_certificate_message}"
proof -
  from init_report[OF assms] obtain raw f1 f2 f3 where
    a: "standard_attempt env (lower env t) raw = Inr f1"
       "regex_attempt env (lower env t) raw f1 = Inr f2"
       "resolve env (warn_fallback f2) = Inr f3" "r = self f3"
    by blast
  from attempts_cert_unset[OF a(1,2)] have e: "errors (self f2) = []" by simp
  from resolve_cases[OF a(3)] have p: "parser_used (self f3) = parser_used (self f2)"
    by (simp add: warn_fallback_fields)
  from resolve_errors[OF a(3)] e p a(4) show ?thesis
    by (auto simp: warn_fallback_fields)
qed

lemma strict_success_tier:
  assumes "TextReader_init env src t fn = Inr (r, cs)" "read_source env src fn = Inr raw"
    "parse_raw_data env (lower env t) raw StandardSamlParser = Inr s" "\<not> used_relaxed_parser s"
  shows "parser_used r = ''strict''"
proof -
  from init_report[OF assms(1)] assms(2) obtain f1 f2 f3 where
    a: "standard_attempt env (lower env t) raw = Inr f1"
       "regex_attempt env (lower env t) raw f1 = Inr f2"
       "resolve env (warn_fallback f2) = Inr f3" "r = self f3"
    by auto
  from standard_attempt_cases[OF a(1)] assms(3,4) have p1: "parser_used (self f1) = ''strict''"
    by auto
  with a(2) have "f2 = f1" by (simp add: regex_attempt_def)
  with resolve_cases[OF a(3)] p1 a(4) show ?thesis by (simp add: warn_fallback_fields)
qed

subsection \<open>Evaluation at the sample runs\<close>

lemmas run_defs = TextReader_init_def standard_attempt_def regex_attempt_def warn_fallback_def
  resolve_def certificate_step_def truthy_def VALID_INPUT_TYPES_def read_source_def
  read_clipboard_def read_stdin_def read_file_def parse_raw_data_def parse_raw_data_calls_def
  parse_raw_data_traced_def sample_env_def broken_har_env_def
  good_certificate_def bad_certificate_def saml_with_certificate_def saml_without_values_def
  saml_without_certificate_def lower_xml

lemma run_good:
  "TextReader_init (sample_env (Inr saml_with_certificate) (Inl SamlParsingError) good_certificate)
       ''clip'' ''xml'' None =
     Inr (\<lparr>errors = [], valid_saml = True, parser_used = ''strict'',
           saml = Some (Some saml_with_certificate), valid_cert = Some True,
           cert = Some (Some (CertificateObject ''MIIC''))\<rparr>,
          [Parse StandardSamlParser, FoundAnyValues, GetCertificate, BuildCertificate])"
  by (simp add: run_defs)

lemma run_regex_fallback:
  "TextReader_init (sample_env (Inl SamlParsingError) (Inr saml_without_certificate) good_certificate)
       ''clip'' ''xml'' None =
     Inr (\<lparr>errors = [fallback_warning ''regex'', no_certificate_message], valid_saml = True,
           parser_used = ''regex'', saml = Some (Some saml_without_certificate),
           valid_cert = Some False, cert = Some None\<rparr>,
          [Parse StandardSamlParser, Parse RegexSamlParser, FoundAnyValues, GetCertificate])"
  by (simp add: run_defs)

subsection \<open>The claims\<close>

text \<open>
  Claim C2. Whenever the constructor returns an object, \<open>cert_is_valid()\<close> returning
  \<open>True\<close> implies that \<open>saml_is_valid()\<close> returns \<open>True\<close>: the certificate flag
  is set to true only inside \<open>if self._valid_saml\<close>.
\<close>

theorem cert_valid_implies_saml_valid:
  assumes "TextReader_init env source input_type filename = Inr (r, cs)"
      and "cert_is_valid r = Inr True"
    shows "saml_is_valid r = True \<and> valid_cert r = Some True \<and> valid_saml r"
proof -
  from init_report[OF assms(1)] obtain raw f1 f2 f3 where
    a: "standard_attempt env (lower env input_type) raw = Inr f1"
       "regex_attempt env (lower env input_type) raw f1 = Inr f2"
       "resolve env (warn_fallback f2) = Inr f3" "r = self f3"
    by blast
  from assms(2) have vc: "valid_cert r = Some True"
    by (simp add: cert_is_valid_def split: option.splits)
  from attempts_cert_unset[OF a(1,2)] have unset: "valid_cert (self (warn_fallback f2)) = None"
    by (simp add: warn_fallback_fields)
  from resolve_cases[OF a(3)] unset vc a(4)
  obtain s g where step: "certificate_step env g s = Inr f3"
    by auto
  from certificate_step_cases[OF step] vc a(4) have "valid_saml r" by auto
  with vc show ?thesis by (simp add: saml_is_valid_def)
qed

theorem cert_valid_implies_saml_valid_witness:
  "cert_is_valid \<lparr>errors = [], valid_saml = True, parser_used = ''strict'',
           saml = Some (Some saml_with_certificate), valid_cert = Some True,
           cert = Some (Some (CertificateObject ''MIIC''))\<rparr> = Inr True
   \<and> saml_is_valid \<lparr>errors = [], valid_saml = True, parser_used = ''strict'',
           saml = Some (Some saml_with_certificate), valid_cert = Some True,
           cert = Some (Some (CertificateObject ''MIIC''))\<rparr> = True"
  using cert_valid_implies_saml_valid [OF run_good] by (simp add: cert_is_valid_def)

text \<open>
  Claim C4. Whenever the constructor returns an object, the error list holds a fallback
  warning exactly when \<open>_parser_used\<close> is not \<open>'strict'\<close>; the warning then names that
  tier and is the first message, and no later message is a fallback warning. When the
  standard parser returns an object that did not use its relaxed mode, the tier is
  \<open>'strict'\<close> and no fallback warning is present.
\<close>

theorem fallback_warning_iff_not_strict:
  assumes "TextReader_init env src t fn = Inr (r, cs)"
  shows "((\<exists>p. fallback_warning p \<in> set (get_errors r)) \<longleftrightarrow> parser_used r \<noteq> ''strict'')
    \<and> (parser_used r \<noteq> ''strict'' \<longrightarrow>
         (\<exists>rest. get_errors r = fallback_warning (parser_used r) # rest
                \<and> (\<forall>p. fallback_warning p \<notin> set rest)))
    \<and> (\<forall>raw s. read_source env src fn = Inr raw
           \<and> parse_raw_data env (lower env t) raw StandardSamlParser = Inr s
           \<and> \<not> used_relaxed_parser s \<longrightarrow>
         parser_used r = ''strict'' \<and> (\<forall>p. fallback_warning p \<notin> set (get_errors r)))"
proof -
  from report_errors[OF assms] obtain rest where
    e: "errors r = (if parser_used r \<noteq> ''strict'' then [fallback_warning (parser_used r)] else []) @ rest"
    and r: "set rest \<subseteq> {encrypted_message, request_message, no_values_message, no_certificate_message}"
    by blast
  from r have nw: "\<forall>p. fallback_warning p \<notin> set rest"
    using warning_not_other by blast
  have one: "(\<exists>p. fallback_warning p \<in> set (get_errors r)) \<longleftrightarrow> parser_used r \<noteq> ''strict''"
    using e nw by (auto simp: get_errors_def)
  have two: "parser_used r \<noteq> ''strict'' \<longrightarrow>
         (\<exists>rest. get_errors r = fallback_warning (parser_used r) # rest
                \<and> (\<forall>p. fallback_warning p \<notin> set rest))"
    using e nw by (auto simp: get_errors_def)
  have three: "\<forall>raw s. read_source env src fn = Inr raw
           \<and> parse_raw_data env (lower env t) raw StandardSamlParser = Inr s
           \<and> \<not> used_relaxed_parser s \<longrightarrow>
         parser_used r = ''strict'' \<and> (\<forall>p. fallback_warning p \<notin> set (get_errors r))"
    using strict_success_tier[OF assms] one by blast
  from one two three show ?thesis by blast
qed

theorem fallback_warning_iff_not_strict_witness:
  "hd (get_errors \<lparr>errors = [fallback_warning ''regex'', no_certificate_message], valid_saml = True,
           parser_used = ''regex'', saml = Some (Some saml_without_certificate),
           valid_cert = Some False, cert = Some None\<rparr>) = fallback_warning ''regex''
   \<and> (\<forall>p. fallback_warning p \<notin> set (get_errors \<lparr>errors = [], valid_saml = True,
           parser_used = ''strict'', saml = Some (Some saml_with_certificate),
           valid_cert = Some True, cert = Some (Some (CertificateObject ''MIIC''))\<rparr>))"
  using fallback_warning_iff_not_strict [OF run_regex_fallback]
    fallback_warning_iff_not_strict [OF run_good]
  by (simp add: get_errors_def)

lemmas init_defs = TextReader_init_def standard_attempt_def regex_attempt_def warn_fallback_def
  resolve_def certificate_step_def truthy_def Let_def

lemma init_no_values_standard:
  assumes "lower env t \<in> VALID_INPUT_TYPES" and "read_source env src fn = Inr raw"
    and "parse_raw_data env (lower env t) raw StandardSamlParser = Inr s"
    and "\<not> found_any_values s"
  shows "TextReader_init env src t fn =
     Inr (\<lparr>errors = (if used_relaxed_parser s then [fallback_warning ''relaxed''] else [])
                      @ [no_values_message],
           valid_saml = False,
           parser_used = (if used_relaxed_parser s then ''relaxed'' else ''strict''),
           saml = Some (Some s), valid_cert = Some False, cert = Some None\<rparr>,
          parse_raw_data_calls env (lower env t) raw StandardSamlParser @ [FoundAnyValues])"
  using assms by (simp add: init_defs)

lemma init_no_values_regex:
  assumes "lower env t \<in> VALID_INPUT_TYPES" and "read_source env src fn = Inr raw"
    and "parse_raw_data env (lower env t) raw StandardSamlParser = Inl SamlParsingError"
    and "parse_raw_data env (lower env t) raw RegexSamlParser = Inr s"
    and "\<not> found_any_values s"
  shows "TextReader_init env src t fn =
     Inr (\<lparr>errors = [fallback_warning ''regex'', no_values_message],
           valid_saml = False, parser_used = ''regex'',
           saml = Some (Some s), valid_cert = Some False, cert = Some None\<rparr>,
          parse_raw_data_calls env (lower env t) raw StandardSamlParser
            @ parse_raw_data_calls env (lower env t) raw RegexSamlParser @ [FoundAnyValues])"
  using assms by (simp add: init_defs)

text \<open>
  Claim C6. When the parse succeeds (the standard parser returns an object, or it raises
  \<open>SamlParsingError\<close> and the regex parser returns an object) and the object reports that
  it found no values, the constructor returns an object whose last message is the one for
  missing SAML data, after the fallback warning if there is one, and \<open>saml_is_valid()\<close>
  is false.
\<close>

theorem no_values_invalidates_saml:
  assumes "lower env t \<in> VALID_INPUT_TYPES" and "read_source env src fn = Inr raw"
    and "parse_raw_data env (lower env t) raw StandardSamlParser = Inr s
         \<or> (parse_raw_data env (lower env t) raw StandardSamlParser = Inl SamlParsingError
            \<and> parse_raw_data env (lower env t) raw RegexSamlParser = Inr s)"
    and "\<not> found_any_values s"
  shows "\<exists>r cs. TextReader_init env src t fn = Inr (r, cs)
      \<and> get_errors r = (if parser_used r \<noteq> ''strict'' then [fallback_warning (parser_used r)] else [])
                          @ [no_values_message]
      \<and> saml_is_valid r = False"
  using assms(3)
proof
  assume "parse_raw_data env (lower env t) raw StandardSamlParser = Inr s"
  from init_no_values_standard[OF assms(1,2) this assms(4)] show ?thesis
    by (simp add: get_errors_def saml_is_valid_def)
next
  assume "parse_raw_data env (lower env t) raw StandardSamlParser = Inl SamlParsingError
            \<and> parse_raw_data env (lower env t) raw RegexSamlParser = Inr s"
  then have "TextReader_init env src t fn =
     Inr (\<lparr>errors = [fallback_warning ''regex'', no_values_message],
           valid_saml = False, parser_used = ''regex'',
           saml = Some (Some s), valid_cert = Some False, cert = Some None\<rparr>,
          parse_raw_data_calls env (lower env t) raw StandardSamlParser
            @ parse_raw_data_calls env (lower env t) raw RegexSamlParser @ [FoundAnyValues])"
    using init_no_values_regex[OF assms(1,2) _ _ assms(4)] by blast
  then show ?thesis
    by (simp add: get_errors_def saml_is_valid_def)
qed


lemma sample_facts:
  "lower (sample_env a b c) ''xml'' \<in> VALID_INPUT_TYPES"
  "read_source (sample_env a b c) ''clip'' None = Inr ''<samlp:Response/>''"
  "parse_raw_data (sample_env a b c) (lower (sample_env a b c) ''xml'') raw StandardSamlParser = a"
  "parse_raw_data (sample_env a b c) (lower (sample_env a b c) ''xml'') raw RegexSamlParser = b"
  by (simp_all add: lower_xml) (simp_all add: run_defs)

theorem no_values_invalidates_saml_witness:
  "\<exists>r cs. TextReader_init (sample_env (Inr saml_without_values) (Inl SamlParsingError) good_certificate)
             ''clip'' ''xml'' None = Inr (r, cs)
      \<and> get_errors r = (if parser_used r \<noteq> ''strict'' then [fallback_warning (parser_used r)] else [])
                          @ [no_values_message]
      \<and> saml_is_valid r = False"
  by (rule no_values_invalidates_saml [where raw = "''<samlp:Response/>''" and s = saml_without_values])
    (simp_all add: sample_facts saml_without_values_def)



subsection \<open>Exceptions and calls of the phases\<close>


lemma standard_attempt_raises:
  assumes "standard_attempt env t raw = Inl (e, cs)"
  shows "cs = parse_raw_data_calls env t raw StandardSamlParser
       \<and> parse_raw_data env t raw StandardSamlParser = Inl e
       \<and> e \<noteq> SamlParsingError \<and> (\<forall>p. e \<noteq> SamlResponseEncryptedError p) \<and> (\<forall>p. e \<noteq> IsASamlRequest p)"
proof (cases "parse_raw_data env t raw StandardSamlParser")
  case (Inr s)
  with assms show ?thesis by (simp add: standard_attempt_def)
next
  case (Inl e')
  with assms show ?thesis by (cases e') (auto simp: standard_attempt_def)
qed

lemma regex_attempt_raises:
  assumes "regex_attempt env t raw f0 = Inl (e, cs)"
  shows "cs = calls f0 @ parse_raw_data_calls env t raw RegexSamlParser
       \<and> parser_used (self f0) = ''regex''
       \<and> parse_raw_data env t raw RegexSamlParser = Inl e
       \<and> (\<forall>p. e \<noteq> SamlResponseEncryptedError p) \<and> (\<forall>p. e \<noteq> IsASamlRequest p)"
proof (cases "parse_raw_data env t raw RegexSamlParser")
  case (Inr s)
  with assms show ?thesis by (simp add: regex_attempt_def split: if_splits)
next
  case (Inl e')
  with assms show ?thesis by (cases e') (auto simp: regex_attempt_def split: if_splits)
qed

lemma regex_attempt_calls:
  assumes "regex_attempt env t raw f0 = Inr f"
  shows "\<exists>rest. calls f = calls f0 @ rest"
proof (cases "parser_used (self f0) = ''regex''")
  case True
  from regex_attempt_cases[OF assms True] show ?thesis by blast
next
  case False
  with assms show ?thesis by (simp add: regex_attempt_def)
qed

lemma certificate_step_raises:
  assumes "certificate_step env f s = Inl (e, cs)"
  shows "cs = calls f @ [GetCertificate, BuildCertificate] \<and> valid_saml (self f)
       \<and> (\<exists>blob. get_certificate s = Some blob \<and> blob \<noteq> [] \<and> Certificate env blob = Inl e)"
  using assms
  by (auto simp: certificate_step_def truthy_def Let_def split: if_splits option.splits sum.splits)

lemma certificate_step_calls:
  assumes "certificate_step env f s = Inr f'"
  shows "\<exists>rest. calls f' = calls f @ rest"
  using certificate_step_cases[OF assms] by auto

lemma resolve_calls:
  assumes "resolve env f = Inr f'"
  shows "\<exists>rest. calls f' = calls f @ rest"
proof -
  from resolve_cases[OF assms] consider "calls f' = calls f"
    | s g where "certificate_step env g s = Inr f'" "calls g = calls f @ [FoundAnyValues]"
    by blast
  then show ?thesis
  proof cases
    case 1 then show ?thesis by simp
  next
    case 2
    from certificate_step_calls[OF 2(1)] 2(2) show ?thesis by auto
  qed
qed

lemma resolve_raises:
  assumes "resolve env f = Inl (e, cs)"
  shows "\<exists>rest. cs = calls f @ rest"
proof (cases "saml (self f)")
  case None
  with assms show ?thesis by (auto simp: resolve_def split: if_splits)
next
  case (Some v)
  show ?thesis
  proof (cases v)
    case None
    with Some assms show ?thesis by (auto simp: resolve_def split: if_splits)
  next
    case (Some s)
    with \<open>saml (self f) = Some v\<close> assms show ?thesis
      by (auto simp: resolve_def Let_def split: if_splits dest!: certificate_step_raises)
  qed
qed

lemma init_calls_start:
  assumes "lower env t \<in> VALID_INPUT_TYPES" "read_source env src fn = Inr raw"
  shows "\<exists>rest. calls_of (TextReader_init env src t fn)
           = parse_raw_data_calls env (lower env t) raw StandardSamlParser @ rest"
proof (cases "standard_attempt env (lower env t) raw")
  case (Inl x)
  obtain e cs where x: "x = (e, cs)" by (cases x)
  with Inl standard_attempt_raises[of env "lower env t" raw e cs]
  have "cs = parse_raw_data_calls env (lower env t) raw StandardSamlParser" by simp
  with assms Inl x show ?thesis
    by (simp add: TextReader_init_def calls_of_def Let_def)
next
  case f1: (Inr f1)
  have c1: "calls f1 = parse_raw_data_calls env (lower env t) raw StandardSamlParser"
    using standard_attempt_cases[OF f1] by simp
  show ?thesis
  proof (cases "regex_attempt env (lower env t) raw f1")
    case (Inl x)
    obtain e cs where x: "x = (e, cs)" by (cases x)
    with Inl regex_attempt_raises[of env "lower env t" raw f1 e cs] c1
    have "cs = parse_raw_data_calls env (lower env t) raw StandardSamlParser
              @ parse_raw_data_calls env (lower env t) raw RegexSamlParser" by simp
    with assms f1 Inl x show ?thesis
      by (simp add: TextReader_init_def calls_of_def Let_def)
  next
    case f2: (Inr f2)
    from regex_attempt_calls[OF f2] c1 obtain r2 where
      c2: "calls (warn_fallback f2) = parse_raw_data_calls env (lower env t) raw StandardSamlParser @ r2"
      by (auto simp: warn_fallback_fields)
    show ?thesis
    proof (cases "resolve env (warn_fallback f2)")
      case (Inl x)
      obtain e cs where x: "x = (e, cs)" by (cases x)
      from resolve_raises[of env "warn_fallback f2" e cs] Inl x c2
      obtain r3 where "cs = parse_raw_data_calls env (lower env t) raw StandardSamlParser @ r3"
        by auto
      with assms f1 f2 Inl x show ?thesis
        by (simp add: TextReader_init_def calls_of_def Let_def)
    next
      case (Inr f3)
      from resolve_calls[OF Inr] c2
      obtain r3 where "calls f3 = parse_raw_data_calls env (lower env t) raw StandardSamlParser @ r3"
        by auto
      with assms f1 f2 Inr show ?thesis
        by (simp add: TextReader_init_def calls_of_def Let_def)
    qed
  qed
qed

lemma init_invalid_input_type:
  "lower env t \<notin> VALID_INPUT_TYPES \<Longrightarrow>
     TextReader_init env src t fn = Inl (ValueError (''Invalid input type: '' @ lower env t), [])"
  by (simp add: TextReader_init_def)

lemma init_lower:
  "lower env t \<in> VALID_INPUT_TYPES \<Longrightarrow>
     TextReader_init env src (lower env t) fn = TextReader_init env src t fn"
  by (simp add: TextReader_init_def lower_valid_idem)

lemma init_read_fails:
  "lower env t \<in> VALID_INPUT_TYPES \<Longrightarrow> read_source env src fn = Inl e \<Longrightarrow>
     TextReader_init env src t fn = Inl (e, [])"
  by (simp add: TextReader_init_def)

subsection \<open>When the constructor returns\<close>







subsection \<open>The claims on the input type, the source and the terminal outcomes\<close>


lemma lower_XML_valid: "lower env ''XML'' \<in> VALID_INPUT_TYPES"
  by (simp add: lower_XML VALID_INPUT_TYPES_def)



lemma run_unknown_source_upper:
  "TextReader_init (sample_env (Inr saml_with_certificate) (Inl SamlParsingError) good_certificate)
       ''url'' ''XML'' None = Inl (ValueError ''Invalid source: url'', [])"
  by (simp add: run_defs lower_XML)


text \<open>
  Claim C8, as stated, fails: \<open>'XML'\<close> lower-cases to \<open>'xml'\<close>, one of the valid types, and
  yet the construction ends with a \<open>ValueError\<close>, the one of line 58 for the unknown
  source \<open>'url'\<close>.
\<close>

theorem valid_type_unknown_source_counterexample:
  "lower (sample_env (Inr saml_with_certificate) (Inl SamlParsingError) good_certificate) ''XML''
       \<in> VALID_INPUT_TYPES
   \<and> TextReader_init (sample_env (Inr saml_with_certificate) (Inl SamlParsingError) good_certificate)
       ''url'' ''XML'' None = Inl (ValueError ''Invalid source: url'', [])"
  by (simp add: run_unknown_source_upper lower_XML_valid)

text \<open>
  Claim C8, amended. The declared input type is compared after \<open>lower()\<close>. When the
  lower-case form is one of \<open>'base64'\<close>, \<open>'xml'\<close>, \<open>'har'\<close>, the input-type check raises
  nothing: the constructor behaves exactly as on the lower-case form; when reading the
  source fails, that failure is what reaches the caller (for an unknown source, the
  \<open>ValueError\<close> of line 58), with no call made; and when the source is read, the run
  starts with the calls of the standard parse attempt on the lower-case type. When the
  lower-case form is none of the three, the constructor raises \<open>ValueError\<close> naming the
  lower-case form, before the source is read.
\<close>

theorem input_type_check_case_insensitive:
  "(lower env t \<in> VALID_INPUT_TYPES \<longrightarrow>
      TextReader_init env src t fn = TextReader_init env src (lower env t) fn)
   \<and> (\<forall>e. lower env t \<in> VALID_INPUT_TYPES \<and> read_source env src fn = Inl e \<longrightarrow>
      TextReader_init env src t fn = Inl (e, []))
   \<and> (\<forall>raw. lower env t \<in> VALID_INPUT_TYPES \<and> read_source env src fn = Inr raw \<longrightarrow>
      (\<exists>rest. calls_of (TextReader_init env src t fn)
               = parse_raw_data_calls env (lower env t) raw StandardSamlParser @ rest))
   \<and> (lower env t \<notin> VALID_INPUT_TYPES \<longrightarrow>
      TextReader_init env src t fn = Inl (ValueError (''Invalid input type: '' @ lower env t), []))"
proof (intro conjI allI impI)
  assume "lower env t \<in> VALID_INPUT_TYPES"
  then show "TextReader_init env src t fn = TextReader_init env src (lower env t) fn"
    by (simp add: init_lower)
next
  fix e assume "lower env t \<in> VALID_INPUT_TYPES \<and> read_source env src fn = Inl e"
  then show "TextReader_init env src t fn = Inl (e, [])"
    by (simp add: init_read_fails)
next
  fix raw assume "lower env t \<in> VALID_INPUT_TYPES \<and> read_source env src fn = Inr raw"
  then show "\<exists>rest. calls_of (TextReader_init env src t fn)
               = parse_raw_data_calls env (lower env t) raw StandardSamlParser @ rest"
    using init_calls_start by blast
next
  assume "lower env t \<notin> VALID_INPUT_TYPES"
  then show "TextReader_init env src t fn
      = Inl (ValueError (''Invalid input type: '' @ lower env t), [])"
    by (rule init_invalid_input_type)
qed

theorem input_type_check_case_insensitive_witness:
  "TextReader_init (sample_env (Inr saml_with_certificate) (Inl SamlParsingError) good_certificate)
        ''clip'' ''XML'' None =
      TextReader_init (sample_env (Inr saml_with_certificate) (Inl SamlParsingError) good_certificate)
        ''clip'' ''xml'' None
   \<and> TextReader_init (sample_env (Inr saml_with_certificate) (Inl SamlParsingError) good_certificate)
        ''url'' ''Base64'' None = Inl (ValueError ''Invalid source: url'', [])
   \<and> (\<exists>rest. calls_of (TextReader_init
          (sample_env (Inr saml_with_certificate) (Inl SamlParsingError) good_certificate)
          ''clip'' ''XML'' None) = Parse StandardSamlParser # rest)
   \<and> TextReader_init (sample_env (Inr saml_with_certificate) (Inl SamlParsingError) good_certificate)
        ''clip'' ''YAML'' None = Inl (ValueError ''Invalid input type: yaml'', [])"
proof -
  let ?env = "sample_env (Inr saml_with_certificate) (Inl SamlParsingError) good_certificate"
  note c8 = input_type_check_case_insensitive
  have up: "lower ?env ''XML'' \<in> VALID_INPUT_TYPES"
    "read_source ?env ''clip'' None = Inr ''<samlp:Response/>''"
    by (simp_all add: lower_XML_valid sample_facts)
  from c8 [of ?env "''XML''" "''clip''" None] up(1)
  have "TextReader_init ?env ''clip'' ''XML'' None
      = TextReader_init ?env ''clip'' (lower ?env ''XML'') None"
    by blast
  then have one: "TextReader_init ?env ''clip'' ''XML'' None = TextReader_init ?env ''clip'' ''xml'' None"
    by (simp only: lower_XML)
  have "lower ?env ''Base64'' \<in> VALID_INPUT_TYPES
      \<and> read_source ?env ''url'' None = Inl (ValueError ''Invalid source: url'')"
    by (simp add: lower_Base64 VALID_INPUT_TYPES_def read_source_def)
  with c8 [of ?env "''Base64''" "''url''" None]
  have two: "TextReader_init ?env ''url'' ''Base64'' None = Inl (ValueError ''Invalid source: url'', [])"
    by blast
  from c8 [of ?env "''XML''" "''clip''" None] up
  have "\<exists>rest. calls_of (TextReader_init ?env ''clip'' ''XML'' None)
      = parse_raw_data_calls ?env (lower ?env ''XML'') ''<samlp:Response/>'' StandardSamlParser @ rest"
    by blast
  then have three: "\<exists>rest. calls_of (TextReader_init ?env ''clip'' ''XML'' None)
      = Parse StandardSamlParser # rest"
    by (simp add: lower_XML parse_raw_data_calls_def parse_raw_data_traced_def)
  have "lower ?env ''YAML'' \<notin> VALID_INPUT_TYPES"
    by (simp add: lower_yaml VALID_INPUT_TYPES_def)
  with c8 [of ?env "''YAML''" "''clip''" None]
  have "TextReader_init ?env ''clip'' ''YAML'' None
      = Inl (ValueError (''Invalid input type: '' @ lower ?env ''YAML''), [])"
    by blast
  then have four: "TextReader_init ?env ''clip'' ''YAML'' None
      = Inl (ValueError ''Invalid input type: yaml'', [])"
    by (simp add: lower_yaml)
  from one two three four show ?thesis by blast
qed










lemma run_bad_certificate:
  "TextReader_init (sample_env (Inr saml_with_certificate) (Inl SamlParsingError) bad_certificate)
       ''clip'' ''xml'' None =
     Inl (OtherException ''Unable to load certificate'',
          [Parse StandardSamlParser, FoundAnyValues, GetCertificate, BuildCertificate])"
  by (simp add: run_defs)

text \<open>
  Claim C5 at a failing input. The standard parser returns an object that found values
  and holds a certificate blob, and \<open>Certificate(raw_cert)\<close> raises. The certificate step
  does run, but line 127 is outside any \<open>try\<close>: the exception leaves the constructor, so
  no object exists, no message is recorded, and \<open>cert_is_valid()\<close> cannot return false
  for the failed construction.
\<close>

theorem certificate_failure_leaves_constructor:
  "found_any_values saml_with_certificate \<and> truthy (get_certificate saml_with_certificate)
   \<and> Certificate (sample_env (Inr saml_with_certificate) (Inl SamlParsingError) bad_certificate) ''MIIC''
       = Inl (OtherException ''Unable to load certificate'')
   \<and> TextReader_init (sample_env (Inr saml_with_certificate) (Inl SamlParsingError) bad_certificate)
       ''clip'' ''xml'' None =
     Inl (OtherException ''Unable to load certificate'',
          [Parse StandardSamlParser, FoundAnyValues, GetCertificate, BuildCertificate])"
  by (simp add: run_bad_certificate)
    (simp add: saml_with_certificate_def truthy_def sample_env_def bad_certificate_def)

lemma run_encrypted:
  "TextReader_init
       (sample_env (Inl (SamlResponseEncryptedError ''strict'')) (Inl SamlParsingError) good_certificate)
       ''clip'' ''xml'' None =
     Inr (\<lparr>errors = [encrypted_message], valid_saml = False, parser_used = ''strict'',
           saml = Some None, valid_cert = None, cert = None\<rparr>,
          [Parse StandardSamlParser])"
  by (simp add: run_defs)

lemma run_regex_encrypted:
  "TextReader_init
       (sample_env (Inl SamlParsingError) (Inl (SamlResponseEncryptedError ''regex'')) good_certificate)
       ''clip'' ''xml'' None =
     Inr (\<lparr>errors = [fallback_warning ''regex'', encrypted_message], valid_saml = False,
           parser_used = ''regex'', saml = Some None, valid_cert = None, cert = None\<rparr>,
          [Parse StandardSamlParser, Parse RegexSamlParser])"
  by (simp add: run_defs)

text \<open>
  Claim C1 at a failing input. The standard parser raises \<open>SamlResponseEncryptedError\<close>.
  The advisory is appended, \<open>_valid_saml\<close> is false and no further call is made, but the
  \<open>return\<close> of line 105 comes before line 121, the only assignment of \<open>_valid_cert\<close>: the
  attribute does not exist, and \<open>cert_is_valid()\<close> raises \<open>AttributeError\<close> instead of
  returning false.
\<close>

theorem encrypted_leaves_cert_flag_unassigned:
  "TextReader_init
       (sample_env (Inl (SamlResponseEncryptedError ''strict'')) (Inl SamlParsingError) good_certificate)
       ''clip'' ''xml'' None =
     Inr (\<lparr>errors = [encrypted_message], valid_saml = False, parser_used = ''strict'',
           saml = Some None, valid_cert = None, cert = None\<rparr>,
          [Parse StandardSamlParser])
   \<and> cert_is_valid \<lparr>errors = [encrypted_message], valid_saml = False, parser_used = ''strict'',
           saml = Some None, valid_cert = None, cert = None\<rparr> = Inl (AttributeError ''_valid_cert'')"
  by (simp add: run_encrypted cert_is_valid_def)

text \<open>
  Claim C10 at a failing input. The standard parser raises \<open>SamlParsingError\<close> and the
  regex parser raises \<open>SamlResponseEncryptedError\<close>. The error list is the fallback
  warning for \<open>'regex'\<close> followed by the advisory and \<open>_valid_saml\<close> is false, but
  \<open>_valid_cert\<close> is never assigned, so \<open>cert_is_valid()\<close> raises \<open>AttributeError\<close>
  instead of returning false.
\<close>

theorem regex_encrypted_leaves_cert_flag_unassigned:
  "TextReader_init
       (sample_env (Inl SamlParsingError) (Inl (SamlResponseEncryptedError ''regex'')) good_certificate)
       ''clip'' ''xml'' None =
     Inr (\<lparr>errors = [fallback_warning ''regex'', encrypted_message], valid_saml = False,
           parser_used = ''regex'', saml = Some None, valid_cert = None, cert = None\<rparr>,
          [Parse StandardSamlParser, Parse RegexSamlParser])
   \<and> cert_is_valid \<lparr>errors = [fallback_warning ''regex'', encrypted_message], valid_saml = False,
           parser_used = ''regex'', saml = Some None, valid_cert = None, cert = None\<rparr>
       = Inl (AttributeError ''_valid_cert'')"
  by (simp add: run_regex_encrypted cert_is_valid_def)

end
